theory Spec2Isabelle
  imports Main "HOL-Library.Sublist"
begin

section \<open>Python values the handler computes with\<close>

text \<open>
  The model follows \<^verbatim>\<open>src/handler.py\<close>. A string is the UTF-8 encoding of a Python
  text: a character of ASCII is one byte below 128, every other character is a sequence of
  bytes from 128 on. The parts of the Python standard library the handler calls (\<^verbatim>\<open>str\<close>
  of an integer, \<^verbatim>\<open>str.join\<close>, \<^verbatim>\<open>datetime\<close>, \<^verbatim>\<open>time.strptime\<close>) are modelled after
  CPython's own sources, for the two formats the handler uses.
\<close>

subsection \<open>Decimal text\<close>

definition digit_char :: "int \<Rightarrow> char" where
  "digit_char n = ''0123456789'' ! nat (n mod 10)"

function show_dec :: "int \<Rightarrow> string" where
  "show_dec n = (if n < 10 then [digit_char n] else show_dec (n div 10) @ [digit_char n])"
  by pat_completeness auto

termination
  by (relation "measure nat") auto

declare show_dec.simps [simp del]

text \<open>\<^verbatim>\<open>str(n)\<close> and \<^verbatim>\<open>f"{n}"\<close> for a Python integer.\<close>

definition show_int :: "int \<Rightarrow> string" where
  "show_int i = (if i < 0 then CHR ''-'' # show_dec (- i) else show_dec i)"

text \<open>The zero padding of \<^verbatim>\<open>%m\<close>, \<^verbatim>\<open>%d\<close>, \<^verbatim>\<open>%Y\<close>, \<^verbatim>\<open>%H\<close>, \<^verbatim>\<open>%M\<close>, \<^verbatim>\<open>%S\<close> and \<^verbatim>\<open>%f\<close>
  on a non-negative field: the decimal text, filled with zeros on the left up to the
  width.\<close>

definition zfill :: "nat \<Rightarrow> int \<Rightarrow> string" where
  "zfill w n = replicate (w - length (show_dec n)) (CHR ''0'') @ show_dec n"

text \<open>\<^verbatim>\<open>sep.join(xs)\<close>.\<close>

fun join :: "string \<Rightarrow> string list \<Rightarrow> string" where
  "join sep [] = []"
| "join sep [x] = x"
| "join sep (x # y # ys) = x @ sep @ join sep (y # ys)"

subsection \<open>The proleptic Gregorian calendar of \<^verbatim>\<open>datetime\<close>\<close>

text \<open>A reading of the local clock, \<^verbatim>\<open>datetime.datetime.now()\<close>; \<^verbatim>\<open>datetime.date.today()\<close>
  is its date part. The fields are Python integers.\<close>

record datetime =
  year :: int
  month :: int
  day :: int
  hour :: int
  minute :: int
  second :: int
  microsecond :: int

definition is_leap :: "int \<Rightarrow> bool" where
  "is_leap y = (y mod 4 = 0 \<and> (y mod 100 \<noteq> 0 \<or> y mod 400 = 0))"

definition days_before_year :: "int \<Rightarrow> int" where
  "days_before_year y =
     (let p = y - 1 in p * 365 + p div 4 - p div 100 + p div 400)"

definition DAYS_IN_MONTH :: "int list" where
  "DAYS_IN_MONTH = [-1, 31, 28, 31, 30, 31, 30, 31, 31, 30, 31, 30, 31]"

definition DAYS_BEFORE_MONTH :: "int list" where
  "DAYS_BEFORE_MONTH = [-1, 0, 31, 59, 90, 120, 151, 181, 212, 243, 273, 304, 334]"

definition days_in_month :: "int \<Rightarrow> int \<Rightarrow> int" where
  "days_in_month y m = (if m = 2 \<and> is_leap y then 29 else DAYS_IN_MONTH ! nat m)"

definition days_before_month :: "int \<Rightarrow> int \<Rightarrow> int" where
  "days_before_month y m =
     DAYS_BEFORE_MONTH ! nat m + (if 2 < m \<and> is_leap y then 1 else 0)"

text \<open>The constructor \<^verbatim>\<open>datetime.date(y, m, d)\<close> accepts exactly these triples and raises
  \<^verbatim>\<open>ValueError\<close> on every other.\<close>

definition valid_date :: "int \<Rightarrow> int \<Rightarrow> int \<Rightarrow> bool" where
  "valid_date y m d =
     (1 \<le> y \<and> y \<le> 9999 \<and> 1 \<le> m \<and> m \<le> 12 \<and> 1 \<le> d \<and> d \<le> days_in_month y m)"

text \<open>\<^verbatim>\<open>date.toordinal()\<close>: day 1 is 0001-01-01.\<close>

definition ymd2ord :: "int \<Rightarrow> int \<Rightarrow> int \<Rightarrow> int" where
  "ymd2ord y m d = days_before_year y + days_before_month y m + d"

definition MAXORDINAL :: int where
  "MAXORDINAL = 3652059"

text \<open>\<^verbatim>\<open>date.fromordinal(n)\<close>, by CPython's division into cycles of 400, 100, 4 and 1
  years (\<^verbatim>\<open>(n + 50) >> 5\<close> is the division by 32).\<close>

definition ord2ymd :: "int \<Rightarrow> int \<times> int \<times> int" where
  "ord2ymd n0 =
     (let n = n0 - 1;
          n400 = n div 146097; n = n mod 146097;
          n100 = n div 36524; n = n mod 36524;
          n4 = n div 1461; n = n mod 1461;
          n1 = n div 365; n = n mod 365;
          y = n400 * 400 + 1 + n100 * 100 + n4 * 4 + n1
      in if n1 = 4 \<or> n100 = 4 then (y - 1, 12, 31)
         else
           let leapyear = (n1 = 3 \<and> (n4 \<noteq> 24 \<or> n100 = 3));
               m = (n + 50) div 32;
               preceding = DAYS_BEFORE_MONTH ! nat m + (if 2 < m \<and> leapyear then 1 else 0)
           in if n < preceding
              then (y, m - 1,
                    n - (preceding -
                         (DAYS_IN_MONTH ! nat (m - 1) + (if m - 1 = 2 \<and> leapyear then 1 else 0)))
                      + 1)
              else (y, m, n - preceding + 1))"

text \<open>\<^verbatim>\<open>strftime('%m-%d-%Y')\<close> on a date and \<^verbatim>\<open>strftime('%Y-%m-%d-%H-%M-%S.%f')\<close> on a clock
  reading. CPython hands \<^verbatim>\<open>%Y\<close> to the C library, and the C library of Linux, where the
  function runs, writes the year without padding: three digits for the year 928.\<close>

definition strftime_mdY :: "int \<Rightarrow> int \<Rightarrow> int \<Rightarrow> string" where
  "strftime_mdY y m d = zfill 2 m @ ''-'' @ zfill 2 d @ ''-'' @ show_dec y"

definition strftime_stamp :: "datetime \<Rightarrow> string" where
  "strftime_stamp t =
     show_dec (year t) @ ''-'' @ zfill 2 (month t) @ ''-'' @ zfill 2 (day t) @ ''-'' @
     zfill 2 (hour t) @ ''-'' @ zfill 2 (minute t) @ ''-'' @ zfill 2 (second t) @ ''.'' @
     zfill 6 (microsecond t)"

subsection \<open>\<^verbatim>\<open>time.strptime(s, '%m-%d-%Y')\<close>\<close>

text \<open>
  CPython turns the format into the regular expression
  \<^verbatim>\<open>(?P<m>1[0-2]|0[1-9]|[1-9])-(?P<d>3[0-1]|[1-2]\d|0[1-9]|[1-9]| [1-9])-(?P<Y>\d\d\d\d)\<close>,
  matches it at the start of the text, and raises \<^verbatim>\<open>ValueError\<close> when there is no match,
  when text remains after the match, or when the three numbers are not a date. A matcher
  returns every way to match a prefix of the text, in the order the regular expression
  tries them: the number read and the text that remains. The classes \<^verbatim>\<open>[0-2]\<close> and
  \<^verbatim>\<open>[1-9]\<close> hold digits of ASCII only.
\<close>

definition digit_val :: "char \<Rightarrow> int option" where
  "digit_val c = map_of (zip ''0123456789'' [0, 1, 2, 3, 4, 5, 6, 7, 8, 9]) c"

definition digit_in :: "string \<Rightarrow> string \<Rightarrow> (int \<times> string) list" where
  "digit_in cls s =
     (case s of
        [] \<Rightarrow> []
      | c # r \<Rightarrow>
          (case digit_val c of
             None \<Rightarrow> []
           | Some n \<Rightarrow> if c \<in> set cls then [(n, r)] else []))"

definition two_digits :: "string \<Rightarrow> string \<Rightarrow> string \<Rightarrow> (int \<times> string) list" where
  "two_digits cls1 cls2 s =
     concat (map (\<lambda>(a, r1). map (\<lambda>(b, r2). (10 * a + b, r2)) (digit_in cls2 r1))
                 (digit_in cls1 s))"

text \<open>
  \<^verbatim>\<open>\d\<close> matches one decimal digit of the Unicode database (the pattern is a text pattern,
  compiled without \<^verbatim>\<open>re.ASCII\<close>), and \<^verbatim>\<open>int\<close> reads the matched digits by their values,
  whatever their script. The database is not part of the handler: the table \<open>nd\<close> of its
  decimal digits other than \<^verbatim>\<open>0\<close> to \<^verbatim>\<open>9\<close>, each by its UTF-8 encoding and its value, is a
  parameter. A character that starts with a byte below 128 is a character of ASCII, and is
  a decimal digit when it is one of \<^verbatim>\<open>0\<close> to \<^verbatim>\<open>9\<close>; any other is looked up in the table.
\<close>

definition unicode_digit :: "(string \<times> int) list \<Rightarrow> string \<Rightarrow> (int \<times> string) list" where
  "unicode_digit nd s =
     concat (map (\<lambda>(enc, v). if enc \<noteq> [] \<and> prefix enc s then [(v, drop (length enc) s)] else [])
                 nd)"

definition re_digit :: "(string \<times> int) list \<Rightarrow> string \<Rightarrow> (int \<times> string) list" where
  "re_digit nd s =
     (case s of
        [] \<Rightarrow> []
      | c # r \<Rightarrow> if (of_char c :: nat) < 128 then digit_in ''0123456789'' s
                 else unicode_digit nd s)"

text \<open>One more \<^verbatim>\<open>\d\<close> after the ways \<open>ps\<close> to match so far.\<close>

definition then_digit ::
  "(string \<times> int) list \<Rightarrow> (int \<times> string) list \<Rightarrow> (int \<times> string) list" where
  "then_digit nd ps =
     concat (map (\<lambda>(a, r1). map (\<lambda>(b, r2). (10 * a + b, r2)) (re_digit nd r1)) ps)"

definition lit :: "char \<Rightarrow> string \<Rightarrow> string list" where
  "lit c s = (case s of [] \<Rightarrow> [] | x # r \<Rightarrow> if x = c then [r] else [])"

definition re_m :: "string \<Rightarrow> (int \<times> string) list" where
  "re_m s = two_digits ''1'' ''012'' s @ two_digits ''0'' ''123456789'' s @
            digit_in ''123456789'' s"

definition re_d :: "(string \<times> int) list \<Rightarrow> string \<Rightarrow> (int \<times> string) list" where
  "re_d nd s = two_digits ''3'' ''01'' s @ then_digit nd (digit_in ''12'' s) @
               two_digits ''0'' ''123456789'' s @ digit_in ''123456789'' s @
               concat (map (digit_in ''123456789'') (lit (CHR '' '') s))"

definition re_Y :: "(string \<times> int) list \<Rightarrow> string \<Rightarrow> (int \<times> string) list" where
  "re_Y nd s = then_digit nd (then_digit nd (then_digit nd (re_digit nd s)))"

definition re_mdY ::
  "(string \<times> int) list \<Rightarrow> string \<Rightarrow> (int \<times> int \<times> int \<times> string) list" where
  "re_mdY nd s =
     concat (map (\<lambda>(m, r1).
       concat (map (\<lambda>r2.
         concat (map (\<lambda>(d, r3).
           concat (map (\<lambda>r4.
             map (\<lambda>(y, r5). (m, d, y, r5)) (re_Y nd r4))
           (lit (CHR ''-'') r3)))
         (re_d nd r2)))
       (lit (CHR ''-'') r1)))
     (re_m s))"

text \<open>
  An exception that a call on the EC2 client raises is kept by the two texts the handler
  takes of it: \<open>exc_info\<close> is what \<^verbatim>\<open>str(sys.exc_info())\<close> gives and \<open>exc_str\<close> what
  \<^verbatim>\<open>str(e)\<close> gives. It is an \<^verbatim>\<open>Exception\<close>, so \<^verbatim>\<open>except Exception\<close> catches it as the bare
  \<^verbatim>\<open>except\<close> does. The other exceptions are the ones the handler's own expressions raise.
\<close>

datatype api_error = ApiError (exc_info: string) (exc_str: string)

datatype exn = Boto api_error | TypeError | ValueError | KeyError | OverflowError

text \<open>A \<^verbatim>\<open>time.struct_time\<close> compares as the tuple of its nine fields: year, month, day,
  hour, minute, second, weekday (Monday is 0), day of the year, and the daylight flag.\<close>

type_synonym struct_time = "int list"

definition struct_time_of :: "int \<Rightarrow> int \<Rightarrow> int \<Rightarrow> struct_time" where
  "struct_time_of y m d =
     [y, m, d, 0, 0, 0, (ymd2ord y m d + 6) mod 7, ymd2ord y m d - ymd2ord y 1 1 + 1, - 1]"

text \<open>The year, month and day \<^verbatim>\<open>time.strptime\<close> reads from the text, and the
  \<^verbatim>\<open>struct_time\<close> it returns for them.\<close>

definition parse_mdY :: "(string \<times> int) list \<Rightarrow> string \<Rightarrow> exn + int \<times> int \<times> int" where
  "parse_mdY nd s =
     (case re_mdY nd s of
        [] \<Rightarrow> Inl ValueError
      | (m, d, y, rest) # _ \<Rightarrow>
          if rest \<noteq> [] then Inl ValueError
          else if \<not> valid_date y m d then Inl ValueError
          else Inr (y, m, d))"

definition strptime_mdY :: "(string \<times> int) list \<Rightarrow> string \<Rightarrow> exn + struct_time" where
  "strptime_mdY nd s =
     (case parse_mdY nd s of
        Inl e \<Rightarrow> Inl e
      | Inr (y, m, d) \<Rightarrow> Inr (struct_time_of y m d))"

text \<open>Python's \<^verbatim>\<open><\<close> on tuples: the first position that differs decides.\<close>

fun tuple_less :: "int list \<Rightarrow> int list \<Rightarrow> bool" where
  "tuple_less [] [] = False"
| "tuple_less [] (y # ys) = True"
| "tuple_less (x # xs) [] = False"
| "tuple_less (x # xs) (y # ys) = (if x = y then tuple_less xs ys else x < y)"

section \<open>The cloud's resources, the client and the observable behaviour\<close>

text \<open>
  The responses of the EC2 client have the shape boto3 gives them. Two members are optional
  in the model, the two the handler itself reads as optional: a tag's \<^verbatim>\<open>Value\<close>
  (\<^verbatim>\<open>tag.get('Value')\<close>) and a block device mapping's \<^verbatim>\<open>Ebs\<close> (\<^verbatim>\<open>'Ebs' in i\<close>). Every
  other member the handler subscripts is present: the listings are filtered by tag key, so
  \<^verbatim>\<open>Tags\<close> is there, and an \<^verbatim>\<open>Ebs\<close> entry carries its \<^verbatim>\<open>SnapshotId\<close>.
\<close>

record tag =
  Key :: string
  Value :: "string option"

record ec2_instance =
  InstanceId :: string
  StateName :: string
  Tags :: "tag list"

text \<open>A reservation is its list \<^verbatim>\<open>Instances\<close>.\<close>

type_synonym reservation = "ec2_instance list"

text \<open>\<open>Ebs\<close> is the \<^verbatim>\<open>SnapshotId\<close> of the mapping's \<^verbatim>\<open>Ebs\<close> entry, if it has one.\<close>

record block_device_mapping =
  Ebs :: "string option"

record image =
  ImageId :: string
  ImageTags :: "tag list"
  BlockDeviceMappings :: "block_device_mapping list"

text \<open>
  The calls on the client, with the arguments that vary: \<open>CreateImage\<close> has the instance,
  the name and the description (\<^verbatim>\<open>NoReboot=True\<close> and \<^verbatim>\<open>DryRun=False\<close> are constant),
  \<open>CreateTags\<close> the one resource and the tags, \<open>DescribeInstances\<close> and \<open>DescribeImages\<close>
  the values of the tag-key filter.
\<close>

datatype api_call =
    DescribeInstances "string list"
  | CreateImage string string string
  | CreateTags string "tag list"
  | DescribeImages string
  | DeregisterImage string
  | DeleteSnapshot string

text \<open>What a run does, in order: the lines it prints, the tracebacks it prints
  (\<^verbatim>\<open>traceback.print_exception\<close>), and the calls it makes on the client of a region.\<close>

datatype event =
    Print string
  | PrintException exn
  | Call string api_call

text \<open>
  The world outside the handler is a state \<open>'s\<close> that every call on a client and every
  reading of the clock may change. A client answers a call with a result or with an
  exception. \<open>region_name\<close> is the region the client was made for; the handler never
  reads it, it labels the client's calls among the events.
\<close>

record 's ec2 =
  region_name :: string
  describe_instances :: "string list \<Rightarrow> 's \<Rightarrow> (api_error + reservation list) \<times> 's"
  create_image :: "string \<Rightarrow> string \<Rightarrow> string \<Rightarrow> 's \<Rightarrow> (api_error + string) \<times> 's"
  create_tags :: "string \<Rightarrow> tag list \<Rightarrow> 's \<Rightarrow> (api_error + unit) \<times> 's"
  describe_images :: "string \<Rightarrow> 's \<Rightarrow> (api_error + image list) \<times> 's"
  deregister_image :: "string \<Rightarrow> 's \<Rightarrow> (api_error + unit) \<times> 's"
  delete_snapshot :: "string \<Rightarrow> 's \<Rightarrow> (api_error + unit) \<times> 's"

text \<open>\<open>now\<close> is \<^verbatim>\<open>datetime.datetime.now()\<close> (and \<^verbatim>\<open>datetime.date.today()\<close>),
  \<open>boto3_client r\<close> is \<^verbatim>\<open>boto3.client('ec2', region_name=r)\<close>, and \<open>unicode_digits\<close> is
  the table of the decimal digits beyond ASCII in the interpreter's Unicode database.\<close>

record 's runtime =
  now :: "'s \<Rightarrow> datetime \<times> 's"
  boto3_client :: "string \<Rightarrow> 's ec2"
  unicode_digits :: "(string \<times> int) list"

text \<open>The module's globals, set once from the environment when the module is loaded
  (lines 14 to 38); their values are parameters of the model.\<close>

record config =
  aws_regions :: "string list"
  tags_to_find :: "string list"
  default_retention_time :: int
  global_key_to_tag_on :: string
  dry_run :: bool

section \<open>\<^verbatim>\<open>backup_tagged_instances_in_region\<close>\<close>

text \<open>\<^verbatim>\<open>'OptInRequired' in str(sys.exc_info())\<close>.\<close>

definition opt_in_required :: "api_error \<Rightarrow> bool" where
  "opt_in_required e = sublist ''OptInRequired'' (exc_info e)"

text \<open>The dictionary built from the tags (a later tag of the same key replaces an
  earlier one), and \<^verbatim>\<open>dict.get\<close>: \<^verbatim>\<open>None\<close> for a missing key, else the stored value, which
  is \<^verbatim>\<open>None\<close> for a tag without \<^verbatim>\<open>Value\<close>.\<close>

definition dict_tags :: "tag list \<Rightarrow> (string \<rightharpoonup> string option)" where
  "dict_tags tags = foldl (\<lambda>d t. d(Key t \<mapsto> Value t)) Map.empty tags"

definition dict_get :: "(string \<rightharpoonup> string option) \<Rightarrow> string \<Rightarrow> string option" where
  "dict_get d k = (case d k of None \<Rightarrow> None | Some v \<Rightarrow> v)"

text \<open>Line 77: the value of the \<^verbatim>\<open>Name\<close> tag when it is truthy (a non-empty string).\<close>

definition instance_name :: "ec2_instance \<Rightarrow> string" where
  "instance_name inst =
     (case dict_get (dict_tags (Tags inst)) ''Name'' of
        Some s \<Rightarrow> if s \<noteq> [] then s else InstanceId inst
      | None \<Rightarrow> InstanceId inst)"

text \<open>Line 81: \<^verbatim>\<open>retention_days\<close> is the tag's value, a string, when it is truthy, and the
  integer default otherwise.\<close>

datatype retention = RStr string | RInt int

definition retention_days :: "config \<Rightarrow> ec2_instance \<Rightarrow> retention" where
  "retention_days cfg inst =
     (case dict_get (dict_tags (Tags inst)) ''Retention'' of
        Some s \<Rightarrow> if s \<noteq> [] then RStr s else RInt (default_retention_time cfg)
      | None \<Rightarrow> RInt (default_retention_time cfg))"

definition show_retention :: "retention \<Rightarrow> string" where
  "show_retention r = (case r of RStr s \<Rightarrow> s | RInt n \<Rightarrow> show_int n)"

text \<open>\<^verbatim>\<open>datetime.timedelta(days=retention_days)\<close> raises \<^verbatim>\<open>TypeError\<close> on a string and
  \<^verbatim>\<open>OverflowError\<close> beyond 999999999 days; adding it to a date raises \<^verbatim>\<open>OverflowError\<close>
  when the result leaves the years 1 to 9999.\<close>

definition timedelta_days :: "retention \<Rightarrow> exn + int" where
  "timedelta_days r =
     (case r of
        RStr s \<Rightarrow> Inl TypeError
      | RInt n \<Rightarrow> if 999999999 < \<bar>n\<bar> then Inl OverflowError else Inr n)"

definition date_add :: "datetime \<Rightarrow> int \<Rightarrow> exn + int \<times> int \<times> int" where
  "date_add today n =
     (let ord = ymd2ord (year today) (month today) (day today) + n
      in if 0 < ord \<and> ord \<le> MAXORDINAL then Inr (ord2ymd ord) else Inl OverflowError)"

text \<open>Line 102.\<close>

definition delete_fmt :: "datetime \<Rightarrow> retention \<Rightarrow> exn + string" where
  "delete_fmt today r =
     (case timedelta_days r of
        Inl e \<Rightarrow> Inl e
      | Inr n \<Rightarrow>
          (case date_add today n of
             Inl e \<Rightarrow> Inl e
           | Inr (y, m, d) \<Rightarrow> Inr (strftime_mdY y m d)))"

text \<open>Lines 103 to 105: the three tags appended to \<^verbatim>\<open>instance['Tags']\<close>.\<close>

definition appended_tags :: "config \<Rightarrow> ec2_instance \<Rightarrow> string \<Rightarrow> tag list" where
  "appended_tags cfg inst fmt =
     [\<lparr>Key = ''DeleteAfter'', Value = Some fmt\<rparr>,
      \<lparr>Key = ''OriginalInstanceID'', Value = Some (InstanceId inst)\<rparr>,
      \<lparr>Key = global_key_to_tag_on cfg, Value = Some ''true''\<rparr>]"

text \<open>Lines 107 to 113, the loop that fills \<^verbatim>\<open>finaltags\<close>: \<^verbatim>\<open>item['Value']\<close> raises
  \<^verbatim>\<open>KeyError\<close> on a tag without \<^verbatim>\<open>Value\<close>, after the line about the tag is printed.\<close>

definition modifying_line :: "tag \<Rightarrow> event" where
  "modifying_line item =
     Print (''Modifying internal aws tag so it doesn't fail: '' @ Key item)"

fun finaltags :: "tag list \<Rightarrow> tag list \<Rightarrow> event list \<times> (exn + tag list)" where
  "finaltags [] acc = ([], Inr acc)"
| "finaltags (item # items) acc =
     (if prefix ''aws:'' (Key item)
      then
        (case Value item of
           None \<Rightarrow> ([modifying_line item], Inl KeyError)
         | Some v \<Rightarrow>
             (case finaltags items (acc @ [\<lparr>Key = ''internal-'' @ Key item, Value = Some v\<rparr>]) of
                (evs, r) \<Rightarrow> (modifying_line item # evs, r)))
      else finaltags items (acc @ [item]))"

text \<open>Lines 118 to 121: the handler of the \<^verbatim>\<open>try\<close> around creation and tagging.\<close>

definition failure :: "exn \<Rightarrow> event list" where
  "failure e =
     [Print ''Failure trying to create image or tag image.  See/report exception below'',
      PrintException e]"

definition image_name :: "ec2_instance \<Rightarrow> datetime \<Rightarrow> string" where
  "image_name inst t = instance_name inst @ ''-backup-'' @ strftime_stamp t"

definition image_description :: "ec2_instance \<Rightarrow> string" where
  "image_description inst =
     ''Automatic Backup of '' @ instance_name inst @ '' from '' @ InstanceId inst"

text \<open>Lines 99 to 117, after \<^verbatim>\<open>create_image\<close> has returned \<open>image_id\<close>.\<close>

definition tag_image ::
  "config \<Rightarrow> 's runtime \<Rightarrow> 's ec2 \<Rightarrow> ec2_instance \<Rightarrow> string \<Rightarrow> 's \<Rightarrow> event list \<times> 's" where
  "tag_image cfg rt ec2 inst image_id w =
     (let (today, w1) = now rt w;
          ev0 = [Print (''AMI: '' @ image_id)]
      in case delete_fmt today (retention_days cfg inst) of
           Inl e \<Rightarrow> (ev0 @ failure e, w1)
         | Inr fmt \<Rightarrow>
             (case finaltags (Tags inst @ appended_tags cfg inst fmt) [] of
                (evs, Inl e) \<Rightarrow> (ev0 @ evs @ failure e, w1)
              | (evs, Inr tags) \<Rightarrow>
                  (let (r, w2) = create_tags ec2 image_id tags w1;
                       ev1 = ev0 @ evs @ [Call (region_name ec2) (CreateTags image_id tags)]
                   in case r of
                        Inl e \<Rightarrow> (ev1 @ failure (Boto e), w2)
                      | Inr u \<Rightarrow> (ev1, w2))))"

text \<open>Lines 70 to 121, the body of the loop over the instances. Line 70 is not an
  f-string: it prints its braces.\<close>

definition backup_instance ::
  "config \<Rightarrow> 's runtime \<Rightarrow> 's ec2 \<Rightarrow> ec2_instance \<Rightarrow> 's \<Rightarrow> event list \<times> 's" where
  "backup_instance cfg rt ec2 inst w =
     (let ev0 =
            [Print (''Instance: {instance['' @ [CHR 0x27] @ ''InstanceId'' @ [CHR 0x27] @ '']}''),
             Print (''Instance name: '' @ instance_name inst),
             Print (''Retention period: '' @ show_retention (retention_days cfg inst) @ '' days'')];
          (t, w1) = now rt w
      in if dry_run cfg
         then (ev0 @ [Print ''DRY_RUN'',
                      Print (''InstanceId : '' @ InstanceId inst),
                      Print (''Name       : '' @ image_name inst t)], w1)
         else
           (let (r, w2) = create_image ec2 (InstanceId inst) (image_name inst t)
                            (image_description inst) w1;
                ev1 = ev0 @ [Call (region_name ec2)
                               (CreateImage (InstanceId inst) (image_name inst t)
                                  (image_description inst))]
            in case r of
                 Inl e \<Rightarrow> (ev1 @ failure (Boto e), w2)
               | Inr image_id \<Rightarrow>
                   (let (ev2, w3) = tag_image cfg rt ec2 inst image_id w2
                    in (ev1 @ ev2, w3))))"

fun backup_instances ::
  "config \<Rightarrow> 's runtime \<Rightarrow> 's ec2 \<Rightarrow> ec2_instance list \<Rightarrow> 's \<Rightarrow> event list \<times> 's" where
  "backup_instances cfg rt ec2 [] w = ([], w)"
| "backup_instances cfg rt ec2 (inst # insts) w =
     (let (ev1, w1) = backup_instance cfg rt ec2 inst w;
          (ev2, w2) = backup_instances cfg rt ec2 insts w1
      in (ev1 @ ev2, w2))"

text \<open>Lines 59 to 63.\<close>

definition instances_of :: "reservation list \<Rightarrow> ec2_instance list" where
  "instances_of reservations = filter (\<lambda>i. StateName i \<noteq> ''terminated'') (concat reservations)"

text \<open>The whole pass: what it returns or raises, what it does, and the world after it.\<close>

definition backup_tagged_instances_in_region ::
  "config \<Rightarrow> 's runtime \<Rightarrow> 's ec2 \<Rightarrow> 's \<Rightarrow> (exn + unit) \<times> event list \<times> 's" where
  "backup_tagged_instances_in_region cfg rt ec2 w =
     (let ev0 = [Print (''Scanning for instances with tags ('' @
                        join '','' (tags_to_find cfg) @ '')''),
                 Call (region_name ec2) (DescribeInstances (tags_to_find cfg))];
          (r, w1) = describe_instances ec2 (tags_to_find cfg) w
      in case r of
           Inl e \<Rightarrow>
             if opt_in_required e
             then (Inr (), ev0 @ [Print ''Region not activated for this account, skipping...''], w1)
             else (Inl (Boto e), ev0, w1)
         | Inr reservations \<Rightarrow>
             (let instances = instances_of reservations
              in if length instances = 0 then (Inr (), ev0, w1)
                 else
                   (let (evs, w2) = backup_instances cfg rt ec2 instances w1
                    in (Inr (),
                        ev0 @ [Print (''Found '' @ show_int (int (length instances)) @
                                      '' instances to backup...'')] @ evs,
                        w2))))"

section \<open>\<^verbatim>\<open>delete_expired_amis\<close>\<close>

text \<open>Line 154: the value of the first tag keyed \<^verbatim>\<open>DeleteAfter\<close>. The outer \<open>None\<close> is
  the \<^verbatim>\<open>IndexError\<close> of \<^verbatim>\<open>[...][0]\<close> on no such tag, which the \<^verbatim>\<open>except\<close> of line 155
  catches; the inner \<open>None\<close> is a tag without \<^verbatim>\<open>Value\<close>.\<close>

definition delete_after :: "image \<Rightarrow> string option option" where
  "delete_after ami =
     (case filter (\<lambda>t. Key t = ''DeleteAfter'') (ImageTags ami) of
        [] \<Rightarrow> None
      | t # ts \<Rightarrow> Some (Value t))"

text \<open>Line 161: \<^verbatim>\<open>time.strptime\<close> raises \<^verbatim>\<open>TypeError\<close> on \<^verbatim>\<open>None\<close>.\<close>

definition delete_date :: "(string \<times> int) list \<Rightarrow> string option \<Rightarrow> exn + struct_time" where
  "delete_date nd v = (case v of None \<Rightarrow> Inl TypeError | Some s \<Rightarrow> strptime_mdY nd s)"

text \<open>Lines 169 and 180: the snapshots of the mappings that have \<^verbatim>\<open>Ebs\<close>.\<close>

definition snapshots :: "image \<Rightarrow> string list" where
  "snapshots ami = List.map_filter Ebs (BlockDeviceMappings ami)"

text \<open>Lines 180 to 185.\<close>

fun delete_snapshots :: "'s ec2 \<Rightarrow> string \<Rightarrow> string list \<Rightarrow> 's \<Rightarrow> event list \<times> 's" where
  "delete_snapshots ec2 image_id [] w = ([], w)"
| "delete_snapshots ec2 image_id (snapshot # rest) w =
     (let (r, w1) = delete_snapshot ec2 snapshot w;
          ev0 = [Print (''DELETING AMI '' @ image_id @ '' SNAPSHOT : '' @ snapshot),
                 Call (region_name ec2) (DeleteSnapshot snapshot)];
          ev1 = (case r of
                   Inl e \<Rightarrow> [Print (''Unable to delete snapshot: '' @ exc_str e)]
                 | Inr u \<Rightarrow> []);
          (ev2, w2) = delete_snapshots ec2 image_id rest w1
      in (ev0 @ ev1 @ ev2, w2))"

text \<open>Lines 166 to 185, for an image that is due.\<close>

definition delete_ami :: "config \<Rightarrow> 's ec2 \<Rightarrow> image \<Rightarrow> 's \<Rightarrow> event list \<times> 's" where
  "delete_ami cfg ec2 ami w =
     (if dry_run cfg
      then (Print (''DRY_RUN, would have deleted ami : '' @ ImageId ami) #
            map (\<lambda>snapshot. Print (''DRY_RUN, would have deleted volume snapshot '' @ snapshot))
              (snapshots ami), w)
      else
        (let (r, w1) = deregister_image ec2 (ImageId ami) w;
             ev0 = [Print (''DELETING AMI : '' @ ImageId ami),
                    Call (region_name ec2) (DeregisterImage (ImageId ami))];
             ev1 = (case r of
                      Inl e \<Rightarrow> [Print (''Unable to delete AMI: '' @ exc_str e)]
                    | Inr u \<Rightarrow> []);
             (ev2, w2) = delete_snapshots ec2 (ImageId ami) (snapshots ami) w1
         in (ev0 @ ev1 @ ev2, w2)))"

text \<open>Lines 150 to 185, the body of the loop over the images: \<open>Some e\<close> when it raises
  \<open>e\<close>, \<open>None\<close> when the loop goes on.\<close>

definition consider_ami ::
  "config \<Rightarrow> 's runtime \<Rightarrow> 's ec2 \<Rightarrow> struct_time \<Rightarrow> image \<Rightarrow> 's \<Rightarrow>
   exn option \<times> event list \<times> 's" where
  "consider_ami cfg rt ec2 today_date ami w =
     (let ev0 = [Print (''  Found AMI to consider: '' @ ImageId ami)]
      in case delete_after ami of
           None \<Rightarrow>
             (None, ev0 @ [Print ''Unable to find when to delete this image after, skipping...''], w)
         | Some v \<Rightarrow>
             (let ev1 = ev0 @ [Print (''Delete After: '' @
                                      (case v of None \<Rightarrow> ''None'' | Some s \<Rightarrow> s))]
              in case delete_date (unicode_digits rt) v of
                   Inl e \<Rightarrow> (Some e, ev1, w)
                 | Inr dd \<Rightarrow>
                     if tuple_less today_date dd
                     then (None, ev1 @ [Print ''This item is too new, skipping...''], w)
                     else
                       (let (ev2, w1) = delete_ami cfg ec2 ami w
                        in (None, ev1 @ ev2, w1))))"

fun consider_amis ::
  "config \<Rightarrow> 's runtime \<Rightarrow> 's ec2 \<Rightarrow> struct_time \<Rightarrow> image list \<Rightarrow> 's \<Rightarrow>
   (exn + unit) \<times> event list \<times> 's"
  where
  "consider_amis cfg rt ec2 today_date [] w = (Inr (), [], w)"
| "consider_amis cfg rt ec2 today_date (ami # amis) w =
     (case consider_ami cfg rt ec2 today_date ami w of
        (Some e, ev1, w1) \<Rightarrow> (Inl e, ev1, w1)
      | (None, ev1, w1) \<Rightarrow>
          (case consider_amis cfg rt ec2 today_date amis w1 of
             (r, ev2, w2) \<Rightarrow> (r, ev1 @ ev2, w2)))"

text \<open>Line 143.\<close>

definition today_date :: "(string \<times> int) list \<Rightarrow> datetime \<Rightarrow> exn + struct_time" where
  "today_date nd t = strptime_mdY nd (strftime_mdY (year t) (month t) (day t))"

definition delete_expired_amis ::
  "config \<Rightarrow> 's runtime \<Rightarrow> 's ec2 \<Rightarrow> 's \<Rightarrow> (exn + unit) \<times> event list \<times> 's" where
  "delete_expired_amis cfg rt ec2 w =
     (let ev0 = [Print (''Scanning for AMIs with tags ('' @ global_key_to_tag_on cfg @ '')''),
                 Call (region_name ec2) (DescribeImages (global_key_to_tag_on cfg))];
          (r, w1) = describe_images ec2 (global_key_to_tag_on cfg) w
      in case r of
           Inl e \<Rightarrow>
             if opt_in_required e
             then (Inr (),
                   ev0 @ [Print ''  Region not activated for this account, skipping...''], w1)
             else (Inl (Boto e), ev0, w1)
         | Inr amis_to_consider \<Rightarrow>
             (let (t, w2) = now rt w1
              in case today_date (unicode_digits rt) t of
                   Inl e \<Rightarrow> (Inl e, ev0, w2)
                 | Inr today \<Rightarrow>
                     if length amis_to_consider = 0 then (Inr (), ev0, w2)
                     else
                       (case consider_amis cfg rt ec2 today amis_to_consider w2 of
                          (res, evs, w3) \<Rightarrow>
                            (res,
                             ev0 @ [Print (''Found '' @ show_int (int (length amis_to_consider)) @
                                           '' amis to consider...'')] @ evs,
                             w3))))"

section \<open>\<^verbatim>\<open>lambda_handler\<close>\<close>

text \<open>Lines 194 to 200, the loop over the regions: an exception of either pass ends it.\<close>

fun scan_regions ::
  "config \<Rightarrow> 's runtime \<Rightarrow> string list \<Rightarrow> 's \<Rightarrow> (exn + unit) \<times> event list \<times> 's" where
  "scan_regions cfg rt [] w = (Inr (), [], w)"
| "scan_regions cfg rt (aws_region # rest) w =
     (let ec2 = boto3_client rt aws_region;
          ev0 = [Print (''Scanning region: '' @ aws_region)]
      in case backup_tagged_instances_in_region cfg rt ec2 w of
           (Inl e, ev1, w1) \<Rightarrow> (Inl e, ev0 @ ev1, w1)
         | (Inr u, ev1, w1) \<Rightarrow>
             (case delete_expired_amis cfg rt ec2 w1 of
                (Inl e, ev2, w2) \<Rightarrow> (Inl e, ev0 @ ev1 @ ev2, w2)
              | (Inr u, ev2, w2) \<Rightarrow>
                  (case scan_regions cfg rt rest w2 of
                     (r, ev3, w3) \<Rightarrow> (r, ev0 @ ev1 @ ev2 @ ev3, w3))))"

definition lambda_handler ::
  "config \<Rightarrow> 's runtime \<Rightarrow> 's \<Rightarrow> (exn + unit) \<times> event list \<times> 's" where
  "lambda_handler cfg rt w = scan_regions cfg rt (aws_regions cfg) w"

section \<open>Observing a run\<close>

text \<open>The calls among the events of a run, each with the region of its client.\<close>

fun calls :: "event list \<Rightarrow> (string \<times> api_call) list" where
  "calls [] = []"
| "calls (Call r c # evs) = (r, c) # calls evs"
| "calls (Print s # evs) = calls evs"
| "calls (PrintException e # evs) = calls evs"

text \<open>The calls that change the cloud, and the calls each pass makes.\<close>

fun mutating :: "api_call \<Rightarrow> bool" where
  "mutating (CreateImage i n d) = True"
| "mutating (CreateTags i ts) = True"
| "mutating (DeregisterImage i) = True"
| "mutating (DeleteSnapshot s) = True"
| "mutating (DescribeInstances ks) = False"
| "mutating (DescribeImages k) = False"



text \<open>The tag lists of the \<open>CreateTags\<close> calls of a run, and the instances of its
  \<open>CreateImage\<close> calls.\<close>

fun applied_tags :: "(string \<times> api_call) list \<Rightarrow> tag list list" where
  "applied_tags [] = []"
| "applied_tags ((r, CreateTags i ts) # cs) = ts # applied_tags cs"
| "applied_tags (c # cs) = applied_tags cs"

fun imaged :: "(string \<times> api_call) list \<Rightarrow> string list" where
  "imaged [] = []"
| "imaged ((r, CreateImage i n d) # cs) = i # imaged cs"
| "imaged (c # cs) = imaged cs"


text \<open>What the loop of lines 107 to 113 does to one tag.\<close>

definition sanitize_tag :: "tag \<Rightarrow> tag" where
  "sanitize_tag t =
     (if prefix ''aws:'' (Key t) then \<lparr>Key = ''internal-'' @ Key t, Value = Value t\<rparr> else t)"

text \<open>An image whose first \<^verbatim>\<open>DeleteAfter\<close> tag has a value that \<^verbatim>\<open>time.strptime\<close> rejects
  (or no value at all).\<close>

definition undecodable :: "(string \<times> int) list \<Rightarrow> image \<Rightarrow> bool" where
  "undecodable nd ami =
     (case delete_after ami of
        None \<Rightarrow> False
      | Some v \<Rightarrow> (case delete_date nd v of Inl e \<Rightarrow> True | Inr dd \<Rightarrow> False))"


text \<open>The calls the Reaper is to make for one image on the client of region \<open>r\<close>, when
  the date of the run is \<open>today\<close>: none for an image without a decodable expiry date, none
  before the expiry date and none in dry-run mode; else the deregistration and then the
  deletion of each snapshot.\<close>

definition ami_calls ::
  "config \<Rightarrow> (string \<times> int) list \<Rightarrow> string \<Rightarrow> struct_time \<Rightarrow> image \<Rightarrow>
   (string \<times> api_call) list" where
  "ami_calls cfg nd r today ami =
     (case delete_after ami of
        None \<Rightarrow> []
      | Some v \<Rightarrow>
          (case delete_date nd v of
             Inl e \<Rightarrow> []
           | Inr dd \<Rightarrow>
               if tuple_less today dd \<or> dry_run cfg then []
               else (r, DeregisterImage (ImageId ami)) #
                    map (\<lambda>s. (r, DeleteSnapshot s)) (snapshots ami)))"

subsection \<open>Concrete worlds\<close>

text \<open>A client whose answers are fixed, on a world without state: the answer of
  \<open>describe_instances\<close>, of \<open>create_image\<close>, of \<open>describe_images\<close>, and the one answer of
  \<open>create_tags\<close>, \<open>deregister_image\<close> and \<open>delete_snapshot\<close>.\<close>

definition fixed_ec2 ::
  "string \<Rightarrow> (api_error + reservation list) \<Rightarrow> (api_error + string) \<Rightarrow>
   (api_error + image list) \<Rightarrow> (api_error + unit) \<Rightarrow> unit ec2" where
  "fixed_ec2 r di ci dim mu =
     \<lparr>region_name = r,
      describe_instances = (\<lambda>ks w. (di, w)),
      create_image = (\<lambda>i n d w. (ci, w)),
      create_tags = (\<lambda>i ts w. (mu, w)),
      describe_images = (\<lambda>k w. (dim, w)),
      deregister_image = (\<lambda>i w. (mu, w)),
      delete_snapshot = (\<lambda>s w. (mu, w))\<rparr>"

text \<open>The Arabic-Indic digits, U+0660 to U+0669: a part of the database's table.\<close>

definition arabic_indic :: "(string \<times> int) list" where
  "arabic_indic =
     [([CHR 0xD9, CHR 0xA0], 0), ([CHR 0xD9, CHR 0xA1], 1), ([CHR 0xD9, CHR 0xA2], 2),
      ([CHR 0xD9, CHR 0xA3], 3), ([CHR 0xD9, CHR 0xA4], 4), ([CHR 0xD9, CHR 0xA5], 5),
      ([CHR 0xD9, CHR 0xA6], 6), ([CHR 0xD9, CHR 0xA7], 7), ([CHR 0xD9, CHR 0xA8], 8),
      ([CHR 0xD9, CHR 0xA9], 9)]"

text \<open>A runtime whose clock stands still, with that table.\<close>

definition fixed_rt :: "datetime \<Rightarrow> (string \<Rightarrow> 's ec2) \<Rightarrow> 's runtime" where
  "fixed_rt t client =
     \<lparr>now = (\<lambda>w. (t, w)), boto3_client = client, unicode_digits = arabic_indic\<rparr>"


text \<open>The default configuration of the module on one region; the clock at noon of
  2024-01-01; and two instances, the first the one of the specification's scenario.\<close>

definition cfg0 :: config where
  "cfg0 = \<lparr>aws_regions = [''us-east-1''], tags_to_find = [''backup'', ''Backup''],
           default_retention_time = 7, global_key_to_tag_on = ''AWSAutomatedDailySnapshots'',
           dry_run = False\<rparr>"

definition t0 :: datetime where
  "t0 = \<lparr>year = 2024, month = 1, day = 1, hour = 12, minute = 0, second = 0, microsecond = 0\<rparr>"

definition web1 :: ec2_instance where
  "web1 = \<lparr>InstanceId = ''i-abc'', StateName = ''running'',
           Tags = [\<lparr>Key = ''backup'', Value = Some []\<rparr>, \<lparr>Key = ''Name'', Value = Some ''web1''\<rparr>,
                   \<lparr>Key = ''Retention'', Value = Some ''3''\<rparr>]\<rparr>"

definition web2 :: ec2_instance where
  "web2 = \<lparr>InstanceId = ''i-def'', StateName = ''running'',
           Tags = [\<lparr>Key = ''backup'', Value = Some []\<rparr>, \<lparr>Key = ''Name'', Value = Some []\<rparr>,
                   \<lparr>Key = ''Retention'', Value = Some []\<rparr>,
                   \<lparr>Key = ''aws:autoscaling:groupName'', Value = Some ''g1''\<rparr>,
                   \<lparr>Key = ''DeleteAfter'', Value = Some ''never''\<rparr>]\<rparr>"


text \<open>A managed image with two snapshots, due on 2024-01-04.\<close>

definition ami1 :: image where
  "ami1 = \<lparr>ImageId = ''ami-1'',
           ImageTags = [\<lparr>Key = ''AWSAutomatedDailySnapshots'', Value = Some ''true''\<rparr>,
                        \<lparr>Key = ''DeleteAfter'', Value = Some ''01-04-2024''\<rparr>],
           BlockDeviceMappings = [\<lparr>Ebs = Some ''snap-1''\<rparr>, \<lparr>Ebs = None\<rparr>,
                                  \<lparr>Ebs = Some ''snap-2''\<rparr>]\<rparr>"

text \<open>The cloud that answers every call: it lists the two instances and the one image.\<close>

definition ok_ec2 :: "string \<Rightarrow> unit ec2" where
  "ok_ec2 r = fixed_ec2 r (Inr [[web1, web2]]) (Inr ''ami-1'') (Inr [ami1]) (Inr ())"

definition rt0 :: "unit runtime" where
  "rt0 = fixed_rt t0 ok_ec2"

text \<open>An instance has a tag of key \<open>k\<close> and every such tag has the empty string as its
  value; an instance has no tag of key \<open>k\<close>.\<close>

definition tag_is_empty :: "string \<Rightarrow> ec2_instance \<Rightarrow> bool" where
  "tag_is_empty k inst =
     ((\<exists>t \<in> set (Tags inst). Key t = k) \<and>
      (\<forall>t \<in> set (Tags inst). Key t = k \<longrightarrow> Value t = Some []))"

definition tag_is_absent :: "string \<Rightarrow> ec2_instance \<Rightarrow> bool" where
  "tag_is_absent k inst = (\<forall>t \<in> set (Tags inst). Key t \<noteq> k)"


text \<open>Two failures of a listing: the region is not enabled for the account, and the caller
  is not authorised.\<close>

definition opt_in_error :: api_error where
  "opt_in_error =
     ApiError ''ClientError: An error occurred (OptInRequired) when calling the operation''
       ''An error occurred (OptInRequired) when calling the operation''"

definition auth_error :: api_error where
  "auth_error =
     ApiError ''ClientError: An error occurred (UnauthorizedOperation) when calling the operation''
       ''An error occurred (UnauthorizedOperation) when calling the operation''"

text \<open>The default configuration in dry-run mode.\<close>

definition cfg_dry :: config where
  "cfg_dry = cfg0\<lparr>dry_run := True\<rparr>"


text \<open>Two more managed images: one without a \<^verbatim>\<open>DeleteAfter\<close> tag, one whose \<^verbatim>\<open>DeleteAfter\<close>
  tag is not a date.\<close>

definition ami_untagged :: image where
  "ami_untagged = \<lparr>ImageId = ''ami-2'',
           ImageTags = [\<lparr>Key = ''AWSAutomatedDailySnapshots'', Value = Some ''true''\<rparr>],
           BlockDeviceMappings = [\<lparr>Ebs = Some ''snap-3''\<rparr>]\<rparr>"

definition ami_bad :: image where
  "ami_bad = \<lparr>ImageId = ''ami-3'',
           ImageTags = [\<lparr>Key = ''AWSAutomatedDailySnapshots'', Value = Some ''true''\<rparr>,
                        \<lparr>Key = ''DeleteAfter'', Value = Some ''never''\<rparr>],
           BlockDeviceMappings = [\<lparr>Ebs = Some ''snap-4''\<rparr>]\<rparr>"





section \<open>Facts about the two passes\<close>

subsection \<open>The Backup Initiator\<close>

lemma calls_append [simp]: "calls (xs @ ys) = calls xs @ calls ys"
  by (induction xs rule: calls.induct) auto

lemma applied_tags_append [simp]: "applied_tags (xs @ ys) = applied_tags xs @ applied_tags ys"
  by (induction xs rule: applied_tags.induct) auto

lemma imaged_append [simp]: "imaged (xs @ ys) = imaged xs @ imaged ys"
  by (induction xs rule: imaged.induct) auto

lemma calls_failure [simp]: "calls (failure e) = []"
  by (simp add: failure_def)

lemma finaltags_calls [simp]: "calls (fst (finaltags items acc)) = []"
  by (induction items acc rule: finaltags.induct)
     (auto simp: modifying_line_def split: option.splits prod.splits)

lemma finaltags_Inr:
  "finaltags items acc = (evs, Inr tags) \<Longrightarrow> tags = acc @ map sanitize_tag items"
  by (induction items acc arbitrary: evs rule: finaltags.induct)
     (auto simp: sanitize_tag_def split: option.splits prod.splits if_splits)

lemma finaltags_Inl:
  "finaltags items acc = (evs, Inl e) \<Longrightarrow> e = KeyError"
  by (induction items acc arbitrary: evs rule: finaltags.induct)
     (auto split: option.splits prod.splits if_splits)

lemma finaltags_total:
  "\<forall>t \<in> set items. prefix ''aws:'' (Key t) \<longrightarrow> Value t \<noteq> None \<Longrightarrow>
   \<exists>evs. finaltags items acc = (evs, Inr (acc @ map sanitize_tag items))"
  by (induction items acc rule: finaltags.induct)
     (auto simp: sanitize_tag_def split: option.splits prod.splits if_splits)

lemma tag_image_calls:
  "calls (fst (tag_image cfg rt ec2 inst image_id w)) =
     (case delete_fmt (fst (now rt w)) (retention_days cfg inst) of
        Inl e \<Rightarrow> []
      | Inr fmt \<Rightarrow>
          (case snd (finaltags (Tags inst @ appended_tags cfg inst fmt) []) of
             Inl e \<Rightarrow> []
           | Inr tags \<Rightarrow> [(region_name ec2, CreateTags image_id tags)]))"
proof -
  have c: "\<And>a b. finaltags a [] = b \<Longrightarrow> calls (fst b) = []"
    using finaltags_calls by blast
  show ?thesis
    by (auto simp: tag_image_def Let_def dest: c split: prod.splits sum.splits)
qed

lemma tag_image_applied:
  assumes "ts \<in> set (applied_tags (calls (fst (tag_image cfg rt ec2 inst image_id w))))"
  shows "\<exists>fmt. delete_fmt (fst (now rt w)) (retention_days cfg inst) = Inr fmt \<and>
               ts = map sanitize_tag (Tags inst @ appended_tags cfg inst fmt)"
proof (cases "delete_fmt (fst (now rt w)) (retention_days cfg inst)")
  case (Inl e)
  with assms show ?thesis by (simp add: tag_image_calls)
next
  case (Inr fmt)
  obtain evs r where f: "finaltags (Tags inst @ appended_tags cfg inst fmt) [] = (evs, r)"
    by (cases "finaltags (Tags inst @ appended_tags cfg inst fmt) []")
  show ?thesis
  proof (cases r)
    case (Inl e)
    with assms Inr f show ?thesis by (simp add: tag_image_calls)
  next
    case r: (Inr tags)
    with f have "tags = map sanitize_tag (Tags inst @ appended_tags cfg inst fmt)"
      using finaltags_Inr by fastforce
    with assms Inr f r show ?thesis by (simp add: tag_image_calls)
  qed
qed

lemma backup_instance_calls_dry:
  "dry_run cfg \<Longrightarrow> calls (fst (backup_instance cfg rt ec2 inst w)) = []"
  by (simp add: backup_instance_def Let_def split: prod.splits)

lemma backup_instance_calls_live:
  "\<not> dry_run cfg \<Longrightarrow>
   calls (fst (backup_instance cfg rt ec2 inst w)) =
     (region_name ec2,
      CreateImage (InstanceId inst) (image_name inst (fst (now rt w))) (image_description inst)) #
     (case create_image ec2 (InstanceId inst) (image_name inst (fst (now rt w)))
             (image_description inst) (snd (now rt w)) of
        (Inl e, w2) \<Rightarrow> []
      | (Inr image_id, w2) \<Rightarrow> calls (fst (tag_image cfg rt ec2 inst image_id w2)))"
  by (simp add: backup_instance_def Let_def split: prod.splits sum.splits)





lemma backup_instances_fst:
  "fst (backup_instances cfg rt ec2 (inst # insts) w) =
     fst (backup_instance cfg rt ec2 inst w) @
     fst (backup_instances cfg rt ec2 insts (snd (backup_instance cfg rt ec2 inst w)))"
  by (simp add: split_beta)


lemma backup_instances_calls_dry:
  "dry_run cfg \<Longrightarrow> calls (fst (backup_instances cfg rt ec2 insts w)) = []"
proof (induction insts arbitrary: w)
  case Nil
  then show ?case by simp
next
  case (Cons inst insts)
  then show ?case
    by (simp add: backup_instances_fst backup_instance_calls_dry del: backup_instances.simps)
qed


subsection \<open>The Reaper\<close>

lemma delete_snapshots_fst:
  "fst (delete_snapshots ec2 image_id (s # rest) w) =
     [Print (''DELETING AMI '' @ image_id @ '' SNAPSHOT : '' @ s),
      Call (region_name ec2) (DeleteSnapshot s)] @
     (case fst (delete_snapshot ec2 s w) of
        Inl e \<Rightarrow> [Print (''Unable to delete snapshot: '' @ exc_str e)]
      | Inr u \<Rightarrow> []) @
     fst (delete_snapshots ec2 image_id rest (snd (delete_snapshot ec2 s w)))"
  by (simp add: split_beta Let_def)

lemma delete_snapshots_calls:
  "calls (fst (delete_snapshots ec2 image_id snaps w)) =
     map (\<lambda>s. (region_name ec2, DeleteSnapshot s)) snaps"
proof (induction snaps arbitrary: w)
  case Nil
  then show ?case by simp
next
  case (Cons s snaps)
  then show ?case
    by (simp add: delete_snapshots_fst del: delete_snapshots.simps split: sum.splits)
qed

lemma calls_map_Print [simp]: "calls (map (\<lambda>x. Print (f x)) xs) = []"
  by (induction xs) auto

lemma delete_ami_dry:
  "dry_run cfg \<Longrightarrow>
   delete_ami cfg ec2 ami w =
     (Print (''DRY_RUN, would have deleted ami : '' @ ImageId ami) #
      map (\<lambda>snapshot. Print (''DRY_RUN, would have deleted volume snapshot '' @ snapshot))
        (snapshots ami), w)"
  by (simp add: delete_ami_def)

lemma delete_ami_live:
  "\<not> dry_run cfg \<Longrightarrow>
   fst (delete_ami cfg ec2 ami w) =
     [Print (''DELETING AMI : '' @ ImageId ami),
      Call (region_name ec2) (DeregisterImage (ImageId ami))] @
     (case fst (deregister_image ec2 (ImageId ami) w) of
        Inl e \<Rightarrow> [Print (''Unable to delete AMI: '' @ exc_str e)]
      | Inr u \<Rightarrow> []) @
     fst (delete_snapshots ec2 (ImageId ami) (snapshots ami)
            (snd (deregister_image ec2 (ImageId ami) w)))"
  by (simp add: delete_ami_def split_beta Let_def)

lemma delete_ami_calls:
  "calls (fst (delete_ami cfg ec2 ami w)) =
     (if dry_run cfg then []
      else (region_name ec2, DeregisterImage (ImageId ami)) #
           map (\<lambda>s. (region_name ec2, DeleteSnapshot s)) (snapshots ami))"
  by (simp add: delete_ami_dry delete_ami_live delete_snapshots_calls split: sum.splits)

lemma consider_ami_calls:
  "calls (fst (snd (consider_ami cfg rt ec2 today ami w))) = ami_calls cfg (unicode_digits rt) (region_name ec2) today ami"
  by (simp add: consider_ami_def ami_calls_def delete_ami_calls split_beta Let_def
           split: option.splits sum.splits)

lemma consider_ami_result:
  "fst (consider_ami cfg rt ec2 today ami w) =
     (case delete_after ami of
        None \<Rightarrow> None
      | Some v \<Rightarrow> (case delete_date (unicode_digits rt) v of Inl e \<Rightarrow> Some e | Inr dd \<Rightarrow> None))"
  by (simp add: consider_ami_def split_beta Let_def split: option.splits sum.splits)

lemma consider_ami_raises:
  "(fst (consider_ami cfg rt ec2 today ami w) \<noteq> None) = undecodable (unicode_digits rt) ami"
  by (simp add: consider_ami_result undecodable_def split: option.splits sum.splits)

lemma consider_amis_Cons:
  "consider_amis cfg rt ec2 today (ami # amis) w =
     (if undecodable (unicode_digits rt) ami
      then (case fst (consider_ami cfg rt ec2 today ami w) of
              None \<Rightarrow> Inr () | Some e \<Rightarrow> Inl e,
            fst (snd (consider_ami cfg rt ec2 today ami w)),
            snd (snd (consider_ami cfg rt ec2 today ami w)))
      else (fst (consider_amis cfg rt ec2 today amis (snd (snd (consider_ami cfg rt ec2 today ami w)))),
            fst (snd (consider_ami cfg rt ec2 today ami w)) @
            fst (snd (consider_amis cfg rt ec2 today amis (snd (snd (consider_ami cfg rt ec2 today ami w))))),
            snd (snd (consider_amis cfg rt ec2 today amis (snd (snd (consider_ami cfg rt ec2 today ami w)))))))"
  using consider_ami_raises[of cfg rt ec2 today ami w]
  by (auto simp: split_beta split: prod.splits option.splits)

lemma ami_calls_undecodable: "undecodable nd ami \<Longrightarrow> ami_calls cfg nd r today ami = []"
  by (simp add: undecodable_def ami_calls_def split: option.splits sum.splits)

lemma consider_amis_calls:
  "calls (fst (snd (consider_amis cfg rt ec2 today amis w))) =
     concat (map (ami_calls cfg (unicode_digits rt) (region_name ec2) today) (takeWhile (\<lambda>a. \<not> undecodable (unicode_digits rt) a) amis))"
proof (induction amis arbitrary: w)
  case Nil
  then show ?case by simp
next
  case (Cons ami amis)
  then show ?case
    by (simp add: consider_amis_Cons consider_ami_calls ami_calls_undecodable
             del: consider_amis.simps)
qed



subsection \<open>The passes and the handler\<close>

lemma backup_pass_calls:
  "calls (fst (snd (backup_tagged_instances_in_region cfg rt ec2 w))) =
     (region_name ec2, DescribeInstances (tags_to_find cfg)) #
     (case fst (describe_instances ec2 (tags_to_find cfg) w) of
        Inl e \<Rightarrow> []
      | Inr reservations \<Rightarrow>
          calls (fst (backup_instances cfg rt ec2 (instances_of reservations)
                        (snd (describe_instances ec2 (tags_to_find cfg) w)))))"
  by (simp add: backup_tagged_instances_in_region_def split_beta Let_def split: sum.splits)




lemma reaper_pass_calls:
  "calls (fst (snd (delete_expired_amis cfg rt ec2 w))) =
     (region_name ec2, DescribeImages (global_key_to_tag_on cfg)) #
     (case fst (describe_images ec2 (global_key_to_tag_on cfg) w) of
        Inl e \<Rightarrow> []
      | Inr amis \<Rightarrow>
          (case today_date (unicode_digits rt) (fst (now rt (snd (describe_images ec2 (global_key_to_tag_on cfg) w)))) of
             Inl e \<Rightarrow> []
           | Inr today \<Rightarrow>
               concat (map (ami_calls cfg (unicode_digits rt) (region_name ec2) today)
                         (takeWhile (\<lambda>a. \<not> undecodable (unicode_digits rt) a) amis))))"
proof -
  have c: "\<And>today amis w. calls (fst (snd (consider_amis cfg rt ec2 today amis w))) =
     concat (map (ami_calls cfg (unicode_digits rt) (region_name ec2) today) (takeWhile (\<lambda>a. \<not> undecodable (unicode_digits rt) a) amis))"
    by (rule consider_amis_calls)
  show ?thesis
    by (simp add: delete_expired_amis_def split_beta Let_def c split: sum.splits)
qed


lemma ami_calls_dry: "dry_run cfg \<Longrightarrow> ami_calls cfg nd r today ami = []"
  by (simp add: ami_calls_def split: option.splits sum.splits)


lemma scan_regions_calls:
  "calls (fst (snd (scan_regions cfg rt (r # rs) w))) =
     calls (fst (snd (backup_tagged_instances_in_region cfg rt (boto3_client rt r) w))) @
     (case fst (backup_tagged_instances_in_region cfg rt (boto3_client rt r) w) of
        Inl e \<Rightarrow> []
      | Inr u \<Rightarrow>
          calls (fst (snd (delete_expired_amis cfg rt (boto3_client rt r)
                   (snd (snd (backup_tagged_instances_in_region cfg rt (boto3_client rt r) w)))))) @
          (case fst (delete_expired_amis cfg rt (boto3_client rt r)
                   (snd (snd (backup_tagged_instances_in_region cfg rt (boto3_client rt r) w)))) of
             Inl e \<Rightarrow> []
           | Inr u \<Rightarrow>
               calls (fst (snd (scan_regions cfg rt rs
                 (snd (snd (delete_expired_amis cfg rt (boto3_client rt r)
                   (snd (snd (backup_tagged_instances_in_region cfg rt (boto3_client rt r) w))))))))))) "
  by (simp add: split_beta Let_def split: sum.splits prod.splits)






subsection \<open>Formatting a date and parsing it back\<close>

lemma month_cases: "1 \<le> (m::int) \<Longrightarrow> m \<le> 12 \<Longrightarrow>
  m = 1 \<or> m = 2 \<or> m = 3 \<or> m = 4 \<or> m = 5 \<or> m = 6 \<or> m = 7 \<or> m = 8 \<or> m = 9 \<or> m = 10 \<or>
  m = 11 \<or> m = 12"
  by arith

lemma day_cases: "1 \<le> (d::int) \<Longrightarrow> d \<le> 31 \<Longrightarrow>
  d = 1 \<or> d = 2 \<or> d = 3 \<or> d = 4 \<or> d = 5 \<or> d = 6 \<or> d = 7 \<or> d = 8 \<or> d = 9 \<or> d = 10 \<or>
  d = 11 \<or> d = 12 \<or> d = 13 \<or> d = 14 \<or> d = 15 \<or> d = 16 \<or> d = 17 \<or> d = 18 \<or> d = 19 \<or>
  d = 20 \<or> d = 21 \<or> d = 22 \<or> d = 23 \<or> d = 24 \<or> d = 25 \<or> d = 26 \<or> d = 27 \<or> d = 28 \<or>
  d = 29 \<or> d = 30 \<or> d = 31"
  by arith

lemma re_m_zfill:
  assumes "1 \<le> m" "m \<le> 12"
  shows "concat (map (\<lambda>(m', r1). concat (map (G m') (lit (CHR ''-'') r1)))
           (re_m (zfill 2 m @ CHR ''-'' # r))) = G m r"
  using month_cases[OF assms]
  by (elim disjE)
     (simp_all add: zfill_def show_dec.simps digit_char_def re_m_def two_digits_def digit_in_def
        digit_val_def lit_def eval_nat_numeral)

lemma re_d_zfill:
  assumes "1 \<le> d" "d \<le> 31"
  shows "concat (map (\<lambda>(d', r3). concat (map (G d') (lit (CHR ''-'') r3)))
           (re_d nd (zfill 2 d @ CHR ''-'' # r))) = G d r"
  using day_cases[OF assms]
  by (elim disjE)
     (simp_all add: zfill_def show_dec.simps digit_char_def re_d_def two_digits_def digit_in_def
        then_digit_def re_digit_def digit_val_def lit_def eval_nat_numeral)

lemma digit_cases: "0 \<le> (k::int) \<Longrightarrow> k < 10 \<Longrightarrow>
  k = 0 \<or> k = 1 \<or> k = 2 \<or> k = 3 \<or> k = 4 \<or> k = 5 \<or> k = 6 \<or> k = 7 \<or> k = 8 \<or> k = 9"
  by arith

lemma re_digit_digit_char:
  "re_digit nd (digit_char k # r) = [(k mod 10, r)]"
proof -
  have "0 \<le> k mod 10" "k mod 10 < 10" by simp_all
  from digit_cases[OF this] show ?thesis
    by (elim disjE) (simp_all add: re_digit_def digit_in_def digit_val_def digit_char_def)
qed

lemma show_dec_small: "0 \<le> n \<Longrightarrow> n < 10 \<Longrightarrow> show_dec n = [digit_char n]"
  by (simp add: show_dec.simps)

lemma show_dec_2: "10 \<le> n \<Longrightarrow> n < 100 \<Longrightarrow> show_dec n = [digit_char (n div 10), digit_char n]"
  by (subst show_dec.simps) (simp add: show_dec_small)

lemma show_dec_3: "100 \<le> n \<Longrightarrow> n < 1000 \<Longrightarrow>
  show_dec n = [digit_char (n div 100), digit_char (n div 10), digit_char n]"
  by (subst show_dec.simps) (simp add: show_dec_2 div_mult2_eq[symmetric] zdiv_zmult2_eq[symmetric])

lemma show_dec_4: "1000 \<le> n \<Longrightarrow> n < 10000 \<Longrightarrow>
  show_dec n = [digit_char (n div 1000), digit_char (n div 100), digit_char (n div 10), digit_char n]"
  by (subst show_dec.simps) (simp add: show_dec_3 zdiv_zmult2_eq[symmetric])

lemma digits_combine:
  "(y::int) = 10 * a + b \<Longrightarrow> a = 10 * c + d \<Longrightarrow> c = 10 * e + f \<Longrightarrow> g = e \<Longrightarrow>
   10 * (10 * (10 * g + f) + d) + b = y"
  by simp

lemma four_digits:
  assumes "0 \<le> (y::int)" "y \<le> 9999"
  shows "10 * (10 * (10 * (y div 1000 mod 10) + y div 100 mod 10) + y div 10 mod 10) + y mod 10 = y"
proof -
  have 1: "y = 10 * (y div 10) + y mod 10" by simp
  have "y div 10 div 10 = y div 100" by (simp add: zdiv_zmult2_eq[symmetric])
  then have 2: "y div 10 = 10 * (y div 100) + y div 10 mod 10"
    using mult_div_mod_eq[of 10 "y div 10"] by simp
  have "y div 100 div 10 = y div 1000" by (simp add: zdiv_zmult2_eq[symmetric])
  then have 3: "y div 100 = 10 * (y div 1000) + y div 100 mod 10"
    using mult_div_mod_eq[of 10 "y div 100"] by simp
  have "0 \<le> y div 1000" "y div 1000 < 10" using assms by simp_all
  then have 4: "y div 1000 mod 10 = y div 1000" by simp
  from 1 2 3 4 show ?thesis by (rule digits_combine)
qed

text \<open>From the year 1000 on the year is written with four digits, which \<^verbatim>\<open>%Y\<close> reads
  back.\<close>

lemma re_Y_show_dec:
  assumes "1000 \<le> y" "y \<le> 9999"
  shows "re_Y nd (show_dec y) = [(y, [])]"
proof -
  from assms have y: "0 \<le> y" "y \<le> 9999" "y < 10000" by simp_all
  show ?thesis
    by (simp only: show_dec_4[OF assms(1) y(3)] re_Y_def then_digit_def re_digit_digit_char
          four_digits[OF y(1,2)] list.map concat.simps append_Nil2 append_Nil prod.case)
qed

lemma days_in_month_le:
  assumes "1 \<le> m" "m \<le> 12"
  shows "days_in_month y m \<le> 31"
  using month_cases[OF assms]
  by (elim disjE) (simp_all add: days_in_month_def DAYS_IN_MONTH_def)

lemma re_mdY_strftime:
  assumes "1 \<le> m" "m \<le> 12" "1 \<le> d" "d \<le> 31" "1000 \<le> y" "y \<le> 9999"
  shows "re_mdY nd (strftime_mdY y m d) = [(m, d, y, [])]"
proof -
  have s: "strftime_mdY y m d = zfill 2 m @ CHR ''-'' # (zfill 2 d @ CHR ''-'' # show_dec y)"
    by (simp add: strftime_mdY_def)
  have "re_mdY nd (strftime_mdY y m d) =
      concat (map (\<lambda>(d', r3).
           concat (map (\<lambda>r4. map (\<lambda>(y', r5). (m, d', y', r5)) (re_Y nd r4))
           (lit (CHR ''-'') r3)))
         (re_d nd (zfill 2 d @ CHR ''-'' # show_dec y)))"
    unfolding s re_mdY_def
    by (rule re_m_zfill[OF assms(1,2), where G = "\<lambda>m' r2.
         concat (map (\<lambda>(d', r3).
           concat (map (\<lambda>r4. map (\<lambda>(y', r5). (m', d', y', r5)) (re_Y nd r4))
           (lit (CHR ''-'') r3)))
         (re_d nd r2))"])
  also have "\<dots> = map (\<lambda>(y', r5). (m, d, y', r5)) (re_Y nd (show_dec y))"
    by (rule re_d_zfill[OF assms(3,4), where G = "\<lambda>d' r4.
         map (\<lambda>(y', r5). (m, d', y', r5)) (re_Y nd r4)"])
  also have "\<dots> = [(m, d, y, [])]"
    by (simp add: re_Y_show_dec[OF assms(5,6)])
  finally show ?thesis .
qed

lemma parse_strftime:
  assumes "valid_date y m d" and "1000 \<le> y"
  shows "parse_mdY nd (strftime_mdY y m d) = Inr (y, m, d)"
proof -
  from assms have b: "1 \<le> m" "m \<le> 12" "1 \<le> d" "d \<le> days_in_month y m" "1000 \<le> y" "y \<le> 9999"
    by (simp_all add: valid_date_def)
  from b(4) days_in_month_le[OF b(1,2), of y] have "d \<le> 31" by simp
  with b have "re_mdY nd (strftime_mdY y m d) = [(m, d, y, [])]"
    by (intro re_mdY_strftime)
  with assms show ?thesis
    by (simp add: parse_mdY_def)
qed

lemma strptime_strftime:
  assumes "valid_date y m d" and "1000 \<le> y"
  shows "strptime_mdY nd (strftime_mdY y m d) = Inr (struct_time_of y m d)"
  by (simp add: strptime_mdY_def parse_strftime[OF assms])

text \<open>Line 143: the date the Reaper compares with is the date of the clock.\<close>

lemma today_date_valid:
  "valid_date (year t) (month t) (day t) \<Longrightarrow> 1000 \<le> year t \<Longrightarrow>
   today_date nd t = Inr (struct_time_of (year t) (month t) (day t))"
  by (simp add: today_date_def strptime_strftime)

section \<open>The claims\<close>

subsection \<open>Values of the concrete inputs\<close>

lemma web1_fields:
  "InstanceId web1 = ''i-abc''" "StateName web1 = ''running''"
  "Tags web1 = [\<lparr>Key = ''backup'', Value = Some []\<rparr>, \<lparr>Key = ''Name'', Value = Some ''web1''\<rparr>,
                \<lparr>Key = ''Retention'', Value = Some ''3''\<rparr>]"
  by (simp_all add: web1_def)

lemma web1_name: "instance_name web1 = ''web1''"
  by (simp add: instance_name_def dict_get_def dict_tags_def web1_fields)

lemma web1_retention_days: "retention_days cfg web1 = RStr ''3''"
  by (simp add: retention_days_def dict_get_def dict_tags_def web1_fields)

lemma t0_stamp: "strftime_stamp t0 = ''2024-01-01-12-00-00.000000''"
  by (simp add: t0_def strftime_stamp_def zfill_def show_dec.simps digit_char_def eval_nat_numeral)

lemma web1_image_name: "image_name web1 t0 = ''web1-backup-2024-01-01-12-00-00.000000''"
  by (simp add: image_name_def web1_name t0_stamp)

lemma web1_description: "image_description web1 = ''Automatic Backup of web1 from i-abc''"
  by (simp add: image_description_def web1_name web1_fields)

lemma show_int_1: "show_int 1 = ''1''"
  by (simp add: show_int_def show_dec.simps digit_char_def)

lemma web2_fields:
  "InstanceId web2 = ''i-def''" "StateName web2 = ''running''"
  "Tags web2 = [\<lparr>Key = ''backup'', Value = Some []\<rparr>, \<lparr>Key = ''Name'', Value = Some []\<rparr>,
                   \<lparr>Key = ''Retention'', Value = Some []\<rparr>,
                   \<lparr>Key = ''aws:autoscaling:groupName'', Value = Some ''g1''\<rparr>,
                   \<lparr>Key = ''DeleteAfter'', Value = Some ''never''\<rparr>]"
  by (simp_all add: web2_def)


lemma ami1_fields:
  "ImageId ami1 = ''ami-1''"
  "ImageTags ami1 = [\<lparr>Key = ''AWSAutomatedDailySnapshots'', Value = Some ''true''\<rparr>,
                     \<lparr>Key = ''DeleteAfter'', Value = Some ''01-04-2024''\<rparr>]"
  "snapshots ami1 = [''snap-1'', ''snap-2'']"
  by (simp_all add: ami1_def snapshots_def List.map_filter_def)









subsection \<open>C1: the expiry tag and the \<^verbatim>\<open>Retention\<close> tag\<close>

text \<open>
  A truthy \<^verbatim>\<open>Retention\<close> tag is never converted to an integer (line 81 keeps the string), so
  \<^verbatim>\<open>datetime.timedelta(days=retention_days)\<close> raises \<^verbatim>\<open>TypeError\<close> inside the \<^verbatim>\<open>try\<close>, after
  the image is created: no tag at all is applied to the image of such an instance,
  whatever the cloud answers.
\<close>

lemma retention_tag_never_tagged:
  assumes "retention_days cfg inst = RStr s"
  shows "applied_tags (calls (fst (backup_instance cfg rt ec2 inst w))) = []"
proof (cases "dry_run cfg")
  case True
  then show ?thesis by (simp add: backup_instance_calls_dry)
next
  case False
  with assms show ?thesis
    by (simp add: backup_instance_calls_live tag_image_calls delete_fmt_def timedelta_days_def
             split: prod.splits sum.splits)
qed

text \<open>
  The other half of C1 holds: for an instance whose \<^verbatim>\<open>Retention\<close> tag is absent or empty
  the retention is the integer default \<open>n\<close>, and every tag list applied to its image has
  the entry \<^verbatim>\<open>DeleteAfter\<close> with the date of the clock plus \<open>n\<close> days, in the format
  \<^verbatim>\<open>%m-%d-%Y\<close>.
\<close>

lemma default_retention_expiry:
  assumes "retention_days cfg inst = RInt n"
    and "ts \<in> set (applied_tags (calls (fst (tag_image cfg rt ec2 inst image_id w))))"
  shows "\<exists>y m d. date_add (fst (now rt w)) n = Inr (y, m, d) \<and>
           \<lparr>Key = ''DeleteAfter'', Value = Some (strftime_mdY y m d)\<rparr> \<in> set ts"
proof -
  from tag_image_applied[OF assms(2)] obtain fmt
    where f: "delete_fmt (fst (now rt w)) (retention_days cfg inst) = Inr fmt"
      and ts: "ts = map sanitize_tag (Tags inst @ appended_tags cfg inst fmt)"
    by (elim exE conjE)
  from f assms(1) obtain y m d
    where d: "date_add (fst (now rt w)) n = Inr (y, m, d)" and fmt: "fmt = strftime_mdY y m d"
    by (auto simp: delete_fmt_def timedelta_days_def split: if_splits sum.splits prod.splits)
  have "sanitize_tag \<lparr>Key = ''DeleteAfter'', Value = Some fmt\<rparr> =
          \<lparr>Key = ''DeleteAfter'', Value = Some fmt\<rparr>"
    by (simp add: sanitize_tag_def)
  then have "\<lparr>Key = ''DeleteAfter'', Value = Some fmt\<rparr> \<in> set ts"
    unfolding ts by (simp add: appended_tags_def)
  with d fmt show ?thesis by blast
qed

lemma date_add_ordinal:
  "date_add t n = Inr (y, m, d) \<Longrightarrow>
   (y, m, d) = ord2ymd (ymd2ord (year t) (month t) (day t) + n)"
  by (simp add: date_add_def Let_def split: if_splits)

text \<open>
  C1, at the instance of the specification's scenario: instance \<^verbatim>\<open>i-abc\<close> tagged
  \<^verbatim>\<open>backup\<close>, \<^verbatim>\<open>Name=web1\<close>, \<^verbatim>\<open>Retention=3\<close>, backed up on 2024-01-01 in live mode by a cloud
  that answers every call. The claim says the image carries the expiry tag
  \<^verbatim>\<open>DeleteAfter=01-04-2024\<close>, the creation date plus 3 days. The run creates the image,
  prints the failure and the traceback of a \<^verbatim>\<open>TypeError\<close>, and makes no \<^verbatim>\<open>create_tags\<close>
  call: the image carries no expiry tag.
\<close>

theorem C1_retention_tag_leaves_image_untagged:
  "backup_tagged_instances_in_region cfg0
     (fixed_rt t0 (\<lambda>r. fixed_ec2 r (Inr [[web1]]) (Inr ''ami-1'') (Inr []) (Inr ())))
     (fixed_ec2 ''us-east-1'' (Inr [[web1]]) (Inr ''ami-1'') (Inr []) (Inr ())) () =
   (Inr (),
    [Print ''Scanning for instances with tags (backup,Backup)'',
     Call ''us-east-1'' (DescribeInstances [''backup'', ''Backup'']),
     Print ''Found 1 instances to backup...'',
     Print (''Instance: {instance['' @ [CHR 0x27] @ ''InstanceId'' @ [CHR 0x27] @ '']}''),
     Print ''Instance name: web1'',
     Print ''Retention period: 3 days'',
     Call ''us-east-1'' (CreateImage ''i-abc'' ''web1-backup-2024-01-01-12-00-00.000000''
        ''Automatic Backup of web1 from i-abc''),
     Print ''AMI: ami-1'',
     Print ''Failure trying to create image or tag image.  See/report exception below'',
     PrintException TypeError],
    ())"
  by (simp add: backup_tagged_instances_in_region_def backup_instance_def tag_image_def
        instances_of_def web1_fields web1_name web1_retention_days web1_image_name
        web1_description show_int_1 show_retention_def delete_fmt_def timedelta_days_def
        failure_def fixed_ec2_def fixed_rt_def cfg0_def)

subsection \<open>C9: empty \<^verbatim>\<open>Name\<close> and \<^verbatim>\<open>Retention\<close> tags\<close>

lemma dict_tags_snoc: "dict_tags (ts @ [t]) = (dict_tags ts)(Key t \<mapsto> Value t)"
  by (simp add: dict_tags_def)

lemma dict_get_uniform:
  "t \<in> set tags \<Longrightarrow> Key t = k \<Longrightarrow> \<forall>t' \<in> set tags. Key t' = k \<longrightarrow> Value t' = v \<Longrightarrow>
   dict_get (dict_tags tags) k = v"
proof (induction tags rule: rev_induct)
  case Nil
  then show ?case by simp
next
  case (snoc x xs)
  show ?case
  proof (cases "Key x = k")
    case True
    with snoc.prems(3) show ?thesis by (simp add: dict_tags_snoc dict_get_def)
  next
    case False
    with snoc.prems have "t \<in> set xs" by auto
    with snoc.IH snoc.prems(2,3) False show ?thesis
      by (simp add: dict_tags_snoc dict_get_def)
  qed
qed

lemma dict_get_absent:
  "\<forall>t \<in> set tags. Key t \<noteq> k \<Longrightarrow> dict_get (dict_tags tags) k = None"
  by (induction tags rule: rev_induct) (auto simp: dict_tags_snoc dict_get_def dict_tags_def)

lemma tag_is_empty_get: "tag_is_empty k inst \<Longrightarrow> dict_get (dict_tags (Tags inst)) k = Some []"
  unfolding tag_is_empty_def using dict_get_uniform by blast

lemma tag_is_absent_get: "tag_is_absent k inst \<Longrightarrow> dict_get (dict_tags (Tags inst)) k = None"
  unfolding tag_is_absent_def by (rule dict_get_absent)

text \<open>
  C9. For an instance whose \<^verbatim>\<open>Name\<close> tag has the empty string as its value, the name of
  the image is the instance identifier followed by \<^verbatim>\<open>-backup-\<close> and the time stamp, the
  same name as for the instance without tags, and in live mode that is the name of the
  \<^verbatim>\<open>create_image\<close> call. For an instance whose \<^verbatim>\<open>Retention\<close> tag has the empty string as
  its value, the retention is the configured default, as for the instance without tags.
\<close>

theorem C9_empty_name_and_retention:
  "(tag_is_empty ''Name'' inst \<longrightarrow>
      image_name inst t = InstanceId inst @ ''-backup-'' @ strftime_stamp t \<and>
      image_name inst t = image_name (inst\<lparr>Tags := []\<rparr>) t \<and>
      (\<not> dry_run cfg \<longrightarrow>
         (\<exists>d rest. calls (fst (backup_instance cfg rt ec2 inst w)) =
            (region_name ec2,
             CreateImage (InstanceId inst)
               (InstanceId inst @ ''-backup-'' @ strftime_stamp (fst (now rt w))) d) # rest))) \<and>
   (tag_is_empty ''Retention'' inst \<longrightarrow>
      retention_days cfg inst = RInt (default_retention_time cfg) \<and>
      retention_days cfg inst = retention_days cfg (inst\<lparr>Tags := []\<rparr>))"
proof (intro conjI impI)
  assume n: "tag_is_empty ''Name'' inst"
  then show a: "image_name inst t = InstanceId inst @ ''-backup-'' @ strftime_stamp t"
    by (simp add: image_name_def instance_name_def tag_is_empty_get)
  have "instance_name (inst\<lparr>Tags := []\<rparr>) = InstanceId inst"
    by (simp add: instance_name_def dict_get_def dict_tags_def)
  with a show "image_name inst t = image_name (inst\<lparr>Tags := []\<rparr>) t"
    by (simp add: image_name_def)
  assume "\<not> dry_run cfg"
  moreover from n have "image_name inst (fst (now rt w)) =
      InstanceId inst @ ''-backup-'' @ strftime_stamp (fst (now rt w))"
    by (simp add: image_name_def instance_name_def tag_is_empty_get)
  ultimately show "\<exists>d rest. calls (fst (backup_instance cfg rt ec2 inst w)) =
            (region_name ec2,
             CreateImage (InstanceId inst)
               (InstanceId inst @ ''-backup-'' @ strftime_stamp (fst (now rt w))) d) # rest"
    by (simp add: backup_instance_calls_live)
next
  assume r: "tag_is_empty ''Retention'' inst"
  then show "retention_days cfg inst = RInt (default_retention_time cfg)"
    by (simp add: retention_days_def tag_is_empty_get)
  have "retention_days cfg (inst\<lparr>Tags := []\<rparr>) = RInt (default_retention_time cfg)"
    by (simp add: retention_days_def dict_get_def dict_tags_def)
  with r show "retention_days cfg inst = retention_days cfg (inst\<lparr>Tags := []\<rparr>)"
    by (simp add: retention_days_def tag_is_empty_get)
qed

text \<open>The witness: instance \<^verbatim>\<open>i-def\<close>, whose \<^verbatim>\<open>Name\<close> and \<^verbatim>\<open>Retention\<close> tags are empty.\<close>

lemma web2_empty: "tag_is_empty ''Name'' web2" "tag_is_empty ''Retention'' web2"
  by (simp_all add: tag_is_empty_def web2_fields)

theorem C9_empty_name_and_retention_witness:
  "image_name web2 t0 = ''i-def-backup-2024-01-01-12-00-00.000000'' \<and>
   retention_days cfg0 web2 = RInt 7"
  using C9_empty_name_and_retention[of web2 t0 cfg0 rt0 "ok_ec2 ''us-east-1''" "()"] web2_empty
  by (simp add: web2_fields t0_stamp cfg0_def)

subsection \<open>C4: tags with the reserved prefix\<close>




subsection \<open>C10: tags the instance already carries\<close>



subsection \<open>C6: a region that is not enabled\<close>

text \<open>
  C6. When the listing of a pass fails, the pass looks for \<^verbatim>\<open>OptInRequired\<close> in the text of
  the exception. If it is there, the pass prints that the region is skipped and returns:
  its only call is the listing, and it raises nothing. If it is not there, the pass raises
  the exception of the listing. This holds for the Backup Initiator and for the Reaper.
\<close>

theorem C6_opt_in_required:
  "(describe_instances ec2 (tags_to_find cfg) w = (Inl e, w1) \<longrightarrow>
      backup_tagged_instances_in_region cfg rt ec2 w =
        (if opt_in_required e
         then (Inr (),
               [Print (''Scanning for instances with tags ('' @ join '','' (tags_to_find cfg) @ '')''),
                Call (region_name ec2) (DescribeInstances (tags_to_find cfg)),
                Print ''Region not activated for this account, skipping...''], w1)
         else (Inl (Boto e),
               [Print (''Scanning for instances with tags ('' @ join '','' (tags_to_find cfg) @ '')''),
                Call (region_name ec2) (DescribeInstances (tags_to_find cfg))], w1))) \<and>
   (describe_images ec2 (global_key_to_tag_on cfg) w = (Inl e, w1) \<longrightarrow>
      delete_expired_amis cfg rt ec2 w =
        (if opt_in_required e
         then (Inr (),
               [Print (''Scanning for AMIs with tags ('' @ global_key_to_tag_on cfg @ '')''),
                Call (region_name ec2) (DescribeImages (global_key_to_tag_on cfg)),
                Print ''  Region not activated for this account, skipping...''], w1)
         else (Inl (Boto e),
               [Print (''Scanning for AMIs with tags ('' @ global_key_to_tag_on cfg @ '')''),
                Call (region_name ec2) (DescribeImages (global_key_to_tag_on cfg))], w1)))"
  by (simp add: backup_tagged_instances_in_region_def delete_expired_amis_def)

lemma opt_in_error_required: "opt_in_required opt_in_error"
  by (simp add: opt_in_required_def opt_in_error_def sublist_code)

lemma auth_error_not_required: "\<not> opt_in_required auth_error"
  by (simp add: opt_in_required_def auth_error_def sublist_code)

theorem C6_opt_in_required_witness:
  "backup_tagged_instances_in_region cfg0 rt0
     (fixed_ec2 ''ap-east-1'' (Inl opt_in_error) (Inr ''ami-1'') (Inl opt_in_error) (Inr ())) () =
     (Inr (),
      [Print ''Scanning for instances with tags (backup,Backup)'',
       Call ''ap-east-1'' (DescribeInstances [''backup'', ''Backup'']),
       Print ''Region not activated for this account, skipping...''], ()) \<and>
   delete_expired_amis cfg0 rt0
     (fixed_ec2 ''ap-east-1'' (Inl opt_in_error) (Inr ''ami-1'') (Inl opt_in_error) (Inr ())) () =
     (Inr (),
      [Print ''Scanning for AMIs with tags (AWSAutomatedDailySnapshots)'',
       Call ''ap-east-1'' (DescribeImages ''AWSAutomatedDailySnapshots''),
       Print ''  Region not activated for this account, skipping...''], ()) \<and>
   fst (backup_tagged_instances_in_region cfg0 rt0
     (fixed_ec2 ''ap-east-1'' (Inl auth_error) (Inr ''ami-1'') (Inl auth_error) (Inr ())) ()) =
     Inl (Boto auth_error) \<and>
   fst (delete_expired_amis cfg0 rt0
     (fixed_ec2 ''ap-east-1'' (Inl auth_error) (Inr ''ami-1'') (Inl auth_error) (Inr ())) ()) =
     Inl (Boto auth_error)"
proof -
  let ?c1 = "fixed_ec2 ''ap-east-1'' (Inl opt_in_error) (Inr ''ami-1'') (Inl opt_in_error) (Inr ())"
  let ?c2 = "fixed_ec2 ''ap-east-1'' (Inl auth_error) (Inr ''ami-1'') (Inl auth_error) (Inr ())"
  have 1: "describe_instances ?c1 (tags_to_find cfg0) () = (Inl opt_in_error, ())"
    and 2: "describe_images ?c1 (global_key_to_tag_on cfg0) () = (Inl opt_in_error, ())"
    and 3: "describe_instances ?c2 (tags_to_find cfg0) () = (Inl auth_error, ())"
    and 4: "describe_images ?c2 (global_key_to_tag_on cfg0) () = (Inl auth_error, ())"
    by (simp_all add: fixed_ec2_def)
  have r: "region_name ?c1 = ''ap-east-1''" "region_name ?c2 = ''ap-east-1''"
    by (simp_all add: fixed_ec2_def)
  have k: "tags_to_find cfg0 = [''backup'', ''Backup'']"
    "global_key_to_tag_on cfg0 = ''AWSAutomatedDailySnapshots''"
    by (simp_all add: cfg0_def)
  note A = C6_opt_in_required[of ?c1 cfg0 "()" opt_in_error "()" rt0]
  note B = C6_opt_in_required[of ?c2 cfg0 "()" auth_error "()" rt0]
  from A[THEN conjunct1, THEN mp, OF 1] A[THEN conjunct2, THEN mp, OF 2]
       B[THEN conjunct1, THEN mp, OF 3] B[THEN conjunct2, THEN mp, OF 4]
  show ?thesis
    by (simp add: r k opt_in_error_required auth_error_not_required)
qed

subsection \<open>C5: dry-run mode\<close>

lemma ami_calls_dry_fun: "dry_run cfg \<Longrightarrow> ami_calls cfg nd r today = (\<lambda>ami. [])"
  by (rule ext) (rule ami_calls_dry)

lemma backup_pass_calls_dry:
  "dry_run cfg \<Longrightarrow>
   calls (fst (snd (backup_tagged_instances_in_region cfg rt ec2 w))) =
     [(region_name ec2, DescribeInstances (tags_to_find cfg))]"
  by (simp add: backup_pass_calls backup_instances_calls_dry split: sum.splits)

lemma reaper_pass_calls_dry:
  "dry_run cfg \<Longrightarrow>
   calls (fst (snd (delete_expired_amis cfg rt ec2 w))) =
     [(region_name ec2, DescribeImages (global_key_to_tag_on cfg))]"
  by (simp add: reaper_pass_calls ami_calls_dry_fun split: sum.splits)

lemma scan_regions_calls_dry:
  "dry_run cfg \<Longrightarrow>
   filter (\<lambda>(r, c). mutating c) (calls (fst (snd (scan_regions cfg rt rs w)))) = []"
proof (induction rs arbitrary: w)
  case Nil
  show ?case by simp
next
  case (Cons r rs)
  then show ?case
    by (simp add: scan_regions_calls backup_pass_calls_dry reaper_pass_calls_dry
             del: scan_regions.simps split: sum.splits)
qed

text \<open>
  C5. In dry-run mode the only call of the Backup Initiator is the listing of the
  instances and the only call of the Reaper is the listing of the images, whatever the
  cloud holds and answers; a whole run of the handler makes no mutating call. For a
  candidate instance the Backup Initiator only prints (the instance, the name the image
  would get), and for an image that is due the Reaper only prints (the image and each
  snapshot it would delete) and leaves the world as it is.
\<close>

theorem C5_dry_run_no_mutation:
  assumes "dry_run cfg"
  shows "calls (fst (snd (backup_tagged_instances_in_region cfg rt ec2 w))) =
           [(region_name ec2, DescribeInstances (tags_to_find cfg))] \<and>
         calls (fst (snd (delete_expired_amis cfg rt ec2 w))) =
           [(region_name ec2, DescribeImages (global_key_to_tag_on cfg))] \<and>
         filter (\<lambda>(r, c). mutating c) (calls (fst (snd (lambda_handler cfg rt w)))) = [] \<and>
         fst (backup_instance cfg rt ec2 inst w) =
           [Print (''Instance: {instance['' @ [CHR 0x27] @ ''InstanceId'' @ [CHR 0x27] @ '']}''),
            Print (''Instance name: '' @ instance_name inst),
            Print (''Retention period: '' @ show_retention (retention_days cfg inst) @ '' days''),
            Print ''DRY_RUN'',
            Print (''InstanceId : '' @ InstanceId inst),
            Print (''Name       : '' @ image_name inst (fst (now rt w)))] \<and>
         delete_ami cfg ec2 ami w =
           (Print (''DRY_RUN, would have deleted ami : '' @ ImageId ami) #
            map (\<lambda>snapshot. Print (''DRY_RUN, would have deleted volume snapshot '' @ snapshot))
              (snapshots ami), w)"
  using assms
  by (simp add: backup_pass_calls_dry reaper_pass_calls_dry scan_regions_calls_dry
        lambda_handler_def delete_ami_dry backup_instance_def split_beta)

text \<open>The witness: the dry run over the two instances and the image \<^verbatim>\<open>ami-1\<close>.\<close>

theorem C5_dry_run_no_mutation_witness:
  "calls (fst (snd (backup_tagged_instances_in_region cfg_dry rt0 (ok_ec2 ''us-east-1'') ()))) =
     [(''us-east-1'', DescribeInstances [''backup'', ''Backup''])] \<and>
   calls (fst (snd (delete_expired_amis cfg_dry rt0 (ok_ec2 ''us-east-1'') ()))) =
     [(''us-east-1'', DescribeImages ''AWSAutomatedDailySnapshots'')] \<and>
   delete_ami cfg_dry (ok_ec2 ''us-east-1'') ami1 () =
     ([Print ''DRY_RUN, would have deleted ami : ami-1'',
       Print ''DRY_RUN, would have deleted volume snapshot snap-1'',
       Print ''DRY_RUN, would have deleted volume snapshot snap-2''], ())"
proof -
  have d: "dry_run cfg_dry" by (simp add: cfg_dry_def)
  from C5_dry_run_no_mutation[OF d, of rt0 "ok_ec2 ''us-east-1''" "()" web1 ami1]
  show ?thesis
    by (simp add: ami1_fields cfg_dry_def cfg0_def ok_ec2_def fixed_ec2_def)
qed

subsection \<open>C2: images without a decodable expiry tag\<close>

lemma parse_never: "strptime_mdY nd ''never'' = Inl ValueError"
  by (simp add: strptime_mdY_def parse_mdY_def re_mdY_def re_m_def re_d_def re_Y_def
        two_digits_def then_digit_def re_digit_def digit_in_def digit_val_def lit_def)

lemma ami_bad_fields:
  "ImageId ami_bad = ''ami-3''" "delete_after ami_bad = Some (Some ''never'')"
  by (simp_all add: ami_bad_def delete_after_def)


lemma show_int_3: "show_int 3 = ''3''"
  by (simp add: show_int_def show_dec.simps digit_char_def)


lemma valid_jan_2024:
  "valid_date (year (t0\<lparr>day := 3\<rparr>)) (month (t0\<lparr>day := 3\<rparr>)) (day (t0\<lparr>day := 3\<rparr>))"
  "valid_date (year (t0\<lparr>day := 4\<rparr>)) (month (t0\<lparr>day := 4\<rparr>)) (day (t0\<lparr>day := 4\<rparr>))"
  "valid_date (year (t0\<lparr>day := 5\<rparr>)) (month (t0\<lparr>day := 5\<rparr>)) (day (t0\<lparr>day := 5\<rparr>))"
  by (simp_all add: t0_def valid_date_def days_in_month_def DAYS_IN_MONTH_def)

lemma today_jan_2024:
  "today_date nd (t0\<lparr>day := 3\<rparr>) = Inr (struct_time_of 2024 1 3)"
  "today_date nd (t0\<lparr>day := 4\<rparr>) = Inr (struct_time_of 2024 1 4)"
  "today_date nd (t0\<lparr>day := 5\<rparr>) = Inr (struct_time_of 2024 1 5)"
  using today_date_valid[OF valid_jan_2024(1), of nd] today_date_valid[OF valid_jan_2024(2), of nd]
    today_date_valid[OF valid_jan_2024(3), of nd]
  by (simp_all add: t0_def)

text \<open>
  An image without a \<^verbatim>\<open>DeleteAfter\<close> tag is skipped as C2 says: the Reaper prints that it
  cannot find the date, makes no call, leaves the world as it is and goes on to the next
  image. For an image whose first \<^verbatim>\<open>DeleteAfter\<close> tag does not decode (its value is not a
  date in the format \<^verbatim>\<open>%m-%d-%Y\<close>, or it has no value) the body of the loop raises the
  exception of \<^verbatim>\<open>time.strptime\<close>, and the loop ends there.
\<close>

lemma image_without_expiry:
  "(delete_after ami = None \<longrightarrow>
      consider_ami cfg rt ec2 today ami w =
        (None,
         [Print (''  Found AMI to consider: '' @ ImageId ami),
          Print ''Unable to find when to delete this image after, skipping...''], w) \<and>
      consider_amis cfg rt ec2 today (ami # amis) w =
        (fst (consider_amis cfg rt ec2 today amis w),
         [Print (''  Found AMI to consider: '' @ ImageId ami),
          Print ''Unable to find when to delete this image after, skipping...''] @
         fst (snd (consider_amis cfg rt ec2 today amis w)),
         snd (snd (consider_amis cfg rt ec2 today amis w)))) \<and>
   (delete_after ami = Some v \<and> delete_date (unicode_digits rt) v = Inl e \<longrightarrow>
      consider_ami cfg rt ec2 today ami w =
        (Some e,
         [Print (''  Found AMI to consider: '' @ ImageId ami),
          Print (''Delete After: '' @ (case v of None \<Rightarrow> ''None'' | Some s \<Rightarrow> s))], w) \<and>
      consider_amis cfg rt ec2 today (ami # amis) w =
        (Inl e,
         [Print (''  Found AMI to consider: '' @ ImageId ami),
          Print (''Delete After: '' @ (case v of None \<Rightarrow> ''None'' | Some s \<Rightarrow> s))], w))"
  by (simp add: consider_ami_def split_beta)

text \<open>
  C2 says that the Reaper skips an image whose \<^verbatim>\<open>DeleteAfter\<close> value does not parse, makes
  no mutating call for it and raises no error. The handler does not do that: the
  \<^verbatim>\<open>time.strptime\<close> of line 161 stands outside the \<^verbatim>\<open>try\<close> of lines 153 to 157 that skips an
  image without the tag, so its \<^verbatim>\<open>ValueError\<close> leaves the loop, the pass and the handler.
  On 2024-01-05 the Reaper lists three images: \<^verbatim>\<open>ami-3\<close> tagged \<^verbatim>\<open>DeleteAfter=never\<close>, \<^verbatim>\<open>ami-2\<close>
  without the tag, and \<^verbatim>\<open>ami-1\<close> tagged \<^verbatim>\<open>DeleteAfter=01-04-2024\<close>. The pass raises
  \<^verbatim>\<open>ValueError\<close> at \<^verbatim>\<open>ami-3\<close>; it never considers \<^verbatim>\<open>ami-2\<close> and \<^verbatim>\<open>ami-1\<close>, and \<^verbatim>\<open>ami-1\<close>, which is
  due, is not deleted.
\<close>

theorem C2_undecodable_expiry_raises:
  "delete_expired_amis cfg0 (fixed_rt (t0\<lparr>day := 5\<rparr>) ok_ec2)
     (fixed_ec2 ''us-east-1'' (Inr []) (Inr ''ami-1'') (Inr [ami_bad, ami_untagged, ami1]) (Inr ()))
     () =
   (Inl ValueError,
    [Print ''Scanning for AMIs with tags (AWSAutomatedDailySnapshots)'',
     Call ''us-east-1'' (DescribeImages ''AWSAutomatedDailySnapshots''),
     Print ''Found 3 amis to consider...'',
     Print ''  Found AMI to consider: ami-3'',
     Print ''Delete After: never''],
    ())"
  by (simp add: delete_expired_amis_def consider_ami_def delete_date_def ami_bad_fields
        parse_never today_jan_2024 show_int_3 fixed_rt_def fixed_ec2_def cfg0_def)

subsection \<open>C3: the expiry boundary\<close>














subsection \<open>C7: failures of single mutations\<close>








subsection \<open>C8: the order of the passes and of the regions\<close>

























end
